theory Spec2Isabelle
  imports Complex_Main
begin

section \<open>Text primitives of the host language\<close>

text \<open>
  Text is a list of characters. The alphabet that is interpreted is ASCII: the digits of
  \<open>\d\<close> are \<open>0\<close> to \<open>9\<close>, white space is the ASCII part of what \<open>str.isspace\<close>
  accepts, and case folding touches the 26 letters only. Any other character is an
  ordinary symbol that is neither a digit nor white space and has no case.
\<close>

definition is_digit :: "char \<Rightarrow> bool" where
  "is_digit c = (c \<in> set ''0123456789'')"

definition is_space :: "char \<Rightarrow> bool" where
  "is_space c = (of_char c \<in> set [9, 10, 11, 12, 13, 28, 29, 30, 31, 32 :: nat])"

definition lower_char :: "char \<Rightarrow> char" where
  "lower_char c =
     (let n = (of_char c :: nat) in if 65 \<le> n \<and> n \<le> 90 then char_of (n + 32) else c)"

definition lower :: "string \<Rightarrow> string" where
  "lower s = map lower_char s"

definition lstrip :: "string \<Rightarrow> string" where
  "lstrip s = dropWhile is_space s"

definition rstrip :: "string \<Rightarrow> string" where
  "rstrip s = rev (dropWhile is_space (rev s))"

definition strip :: "string \<Rightarrow> string" where
  "strip s = rstrip (lstrip s)"

text \<open>\<open>s.split(sep)\<close> for a one-character separator: always at least one piece.\<close>

fun split_on :: "char \<Rightarrow> string \<Rightarrow> string list" where
  "split_on sep [] = [[]]"
| "split_on sep (c # cs) =
     (if c = sep then [] # split_on sep cs
      else (case split_on sep cs of
              [] \<Rightarrow> [[c]]
            | p # ps \<Rightarrow> (c # p) # ps))"

text \<open>\<open>s.split()\<close>: the maximal runs of characters that are not white space.\<close>

fun split_ws_aux :: "string \<Rightarrow> string \<Rightarrow> string list" where
  "split_ws_aux cur [] = (if cur = [] then [] else [rev cur])"
| "split_ws_aux cur (c # cs) =
     (if is_space c
      then (if cur = [] then split_ws_aux [] cs else rev cur # split_ws_aux [] cs)
      else split_ws_aux (c # cur) cs)"

definition split_ws :: "string \<Rightarrow> string list" where
  "split_ws s = split_ws_aux [] s"

text \<open>\<open>' '.join(parts)\<close>.\<close>

fun join_sp :: "string list \<Rightarrow> string" where
  "join_sp [] = []"
| "join_sp [p] = p"
| "join_sp (p # q # ps) = p @ '' '' @ join_sp (q # ps)"

definition startswith :: "string \<Rightarrow> string \<Rightarrow> bool" where
  "startswith s p = (take (length p) s = p)"

text \<open>\<open>sub in s\<close> for strings.\<close>

fun contains :: "string \<Rightarrow> string \<Rightarrow> bool" where
  "contains [] sub = (sub = [])"
| "contains (c # cs) sub = (startswith (c # cs) sub \<or> contains cs sub)"

text \<open>
  \<open>s.rfind(sub)\<close>: the greatest index at which \<open>sub\<close> occurs, \<open>None\<close> standing for
  the result \<open>-1\<close>.
\<close>

fun rfind_from :: "nat \<Rightarrow> string \<Rightarrow> string \<Rightarrow> nat option" where
  "rfind_from i [] sub = (if sub = [] then Some i else None)"
| "rfind_from i (c # cs) sub =
     (case rfind_from (Suc i) cs sub of
        Some j \<Rightarrow> Some j
      | None \<Rightarrow> if startswith (c # cs) sub then Some i else None)"

definition rfind :: "string \<Rightarrow> string \<Rightarrow> nat option" where
  "rfind s sub = rfind_from 0 s sub"

subsection \<open>Numbers and their text\<close>

definition digit_val :: "char \<Rightarrow> nat" where
  "digit_val c = of_char c - 48"

text \<open>The value of a string of decimal digits, most significant first.\<close>

definition digits_val :: "string \<Rightarrow> nat" where
  "digits_val s = foldl (\<lambda>acc c. 10 * acc + digit_val c) 0 s"

text \<open>
  \<open>int(s)\<close> on text: surrounding white space is dropped, one sign is allowed, and the
  digits may be grouped by single underscores. Anything else raises \<open>ValueError\<close>,
  here \<open>None\<close>. Integers are unbounded.
\<close>

fun digit_groups_ok :: "string \<Rightarrow> bool" where
  "digit_groups_ok [] = False"
| "digit_groups_ok [c] = is_digit c"
| "digit_groups_ok (c # d # cs) =
     (is_digit c \<and> (if d = CHR ''_'' then digit_groups_ok cs else digit_groups_ok (d # cs)))"

definition py_int_unsigned :: "string \<Rightarrow> int option" where
  "py_int_unsigned s =
     (if digit_groups_ok s then Some (int (digits_val (filter is_digit s))) else None)"

definition py_int :: "string \<Rightarrow> int option" where
  "py_int s =
     (case strip s of
        [] \<Rightarrow> None
      | c # cs \<Rightarrow>
          if c = CHR ''-'' then map_option uminus (py_int_unsigned cs)
          else if c = CHR ''+'' then py_int_unsigned cs
          else py_int_unsigned (c # cs))"

text \<open>
  \<open>float(s)\<close> is only ever applied to text matched by \<open>\d+(?:\.\d+)?\<close>. The model keeps
  the exact decimal value as a rational; the program stores the double nearest to it.
\<close>

definition py_float :: "string \<Rightarrow> rat" where
  "py_float s =
     (let ip = takeWhile is_digit s; fp = drop (Suc (length ip)) s
      in of_nat (digits_val ip) + of_nat (digits_val fp) / 10 ^ length fp)"

text \<open>\<open>int(x)\<close> on a non-negative number truncates.\<close>

definition trunc :: "rat \<Rightarrow> nat" where
  "trunc x = nat \<lfloor>x\<rfloor>"

text \<open>Decimal text of a natural number, and \<open>f"{n:0wd}"\<close>.\<close>

definition digit_char :: "nat \<Rightarrow> char" where
  "digit_char d = ''0123456789'' ! d"

fun dec :: "nat \<Rightarrow> string" where
  "dec n = (if n < 10 then [digit_char n] else dec (n div 10) @ [digit_char (n mod 10)])"

declare dec.simps [simp del]

definition zpad :: "nat \<Rightarrow> nat \<Rightarrow> string" where
  "zpad w n = replicate (w - length (dec n)) CHR ''0'' @ dec n"

section \<open>Regular expressions\<close>

text \<open>
  The patterns of the program use character classes, literals, sequence, alternation,
  optional parts, greedy repetition of a single class, capture groups and the end
  anchor. A match is searched the way a backtracking matcher does: alternatives left to
  right, repetitions longest first. \<open>rx_run\<close> lists every way to match at the start of
  the text, in that order, each with the captures made and the text left.
\<close>

datatype cls = Digit | Space | Ch char | ChI char | Or cls cls

fun cls_ok :: "cls \<Rightarrow> char \<Rightarrow> bool" where
  "cls_ok Digit c = is_digit c"
| "cls_ok Space c = is_space c"
| "cls_ok (Ch x) c = (c = x)"
| "cls_ok (ChI x) c = (lower_char c = lower_char x)"
| "cls_ok (Or a b) c = (cls_ok a c \<or> cls_ok b c)"

datatype rx =
    Eps
  | One cls
  | Seq rx rx
  | Alt rx rx
  | Opt rx
  | Star cls
  | Plus cls
  | Grp nat rx
  | Eol

type_synonym mstate = "(nat \<times> string) list \<times> string"

fun star_run :: "cls \<Rightarrow> (nat \<times> string) list \<Rightarrow> string \<Rightarrow> mstate list" where
  "star_run k cs [] = [(cs, [])]"
| "star_run k cs (c # s) =
     (if cls_ok k c then star_run k cs s @ [(cs, c # s)] else [(cs, c # s)])"

fun rx_run :: "rx \<Rightarrow> mstate \<Rightarrow> mstate list" where
  "rx_run Eps st = [st]"
| "rx_run (One k) (cs, s) =
     (case s of [] \<Rightarrow> [] | c # t \<Rightarrow> if cls_ok k c then [(cs, t)] else [])"
| "rx_run (Seq a b) st = concat (map (rx_run b) (rx_run a st))"
| "rx_run (Alt a b) st = rx_run a st @ rx_run b st"
| "rx_run (Opt a) st = rx_run a st @ [st]"
| "rx_run (Star k) (cs, s) = star_run k cs s"
| "rx_run (Plus k) (cs, s) =
     (case s of [] \<Rightarrow> [] | c # t \<Rightarrow> if cls_ok k c then star_run k cs t else [])"
| "rx_run (Grp n a) (cs, s) =
     map (\<lambda>(cs', t). ((n, take (length s - length t) s) # cs', t)) (rx_run a (cs, s))"
| "rx_run Eol (cs, s) = (if s = [] \<or> s = [CHR 0x0A] then [(cs, s)] else [])"

text \<open>A sequence of parts, and a literal word, case-sensitive or not.\<close>

fun seqs :: "rx list \<Rightarrow> rx" where
  "seqs [] = Eps"
| "seqs [r] = r"
| "seqs (r # q # rs) = Seq r (seqs (q # rs))"

definition word :: "string \<Rightarrow> rx" where
  "word w = seqs (map (\<lambda>c. One (Ch c)) w)"

definition wordI :: "string \<Rightarrow> rx" where
  "wordI w = seqs (map (\<lambda>c. One (ChI c)) w)"

text \<open>
  A match object: the text matched (group 0) and the captures. \<open>re_match\<close> anchors at
  the start of the text, which is what a leading \<open>^\<close> asks for as well.
\<close>

record rmatch =
  whole :: string
  caps :: "(nat \<times> string) list"

text \<open>
  \<open>m.group(n)\<close>: \<open>None\<close> when the group took no part in the match. \<open>grp\<close> reads a
  group that every path of its pattern goes through.
\<close>

definition group :: "rmatch \<Rightarrow> nat \<Rightarrow> string option" where
  "group m n = map_of (caps m) n"

definition grp :: "rmatch \<Rightarrow> nat \<Rightarrow> string" where
  "grp m n = (case group m n of Some g \<Rightarrow> g | None \<Rightarrow> [])"

definition re_match :: "rx \<Rightarrow> string \<Rightarrow> rmatch option" where
  "re_match r s =
     (case rx_run r ([], s) of
        [] \<Rightarrow> None
      | (cs, t) # _ \<Rightarrow> Some \<lparr>whole = take (length s - length t) s, caps = cs\<rparr>)"

text \<open>\<open>re.search\<close>: the first position, from the left, at which the pattern matches.\<close>

fun re_search :: "rx \<Rightarrow> string \<Rightarrow> rmatch option" where
  "re_search r [] = re_match r []"
| "re_search r (c # s) =
     (case re_match r (c # s) of Some m \<Rightarrow> Some m | None \<Rightarrow> re_search r s)"

text \<open>
  \<open>re.sub(pattern, rep, s)\<close>: every match found scanning from the left is replaced by
  \<open>rep\<close> and the scan goes on behind it. \<open>sub_from n\<close> skips \<open>n\<close> characters of
  the match just replaced. No pattern of the program matches the empty text.
\<close>

fun sub_from :: "rx \<Rightarrow> string \<Rightarrow> nat \<Rightarrow> string \<Rightarrow> string" where
  "sub_from r rep n [] = []"
| "sub_from r rep (Suc n) (c # s) = sub_from r rep n s"
| "sub_from r rep 0 (c # s) =
     (case re_match r (c # s) of
        None \<Rightarrow> c # sub_from r rep 0 s
      | Some m \<Rightarrow>
          (case length (whole m) of
             0 \<Rightarrow> c # sub_from r rep 0 s
           | Suc k \<Rightarrow> rep @ sub_from r rep k s))"

definition re_sub :: "rx \<Rightarrow> string \<Rightarrow> string \<Rightarrow> string" where
  "re_sub r rep s = sub_from r rep 0 s"

section \<open>Data model\<close>

text \<open>
  Every \<open>raise\<close> of the parser is a \<open>ValueError\<close> with a message; the constructors name
  the raising site and carry the text the message quotes. \<open>InvalidRepToken\<close> is the
  \<open>ValueError\<close> of \<open>int()\<close>, \<open>DateOverflow\<close> the \<open>OverflowError\<close> of date arithmetic
  below the first day of year 1, \<open>IndexError\<close> a read of an empty list.
\<close>

datatype error =
    MissingPrefix
  | NoExercise
  | UnknownExercise string
  | UnknownExerciseType string
  | NoFormat
  | UnparsableFormat string
  | InvalidDate string
  | InvalidRepToken string
  | DateOverflow
  | IndexError

text \<open>
  An entry of \<open>parseRepList\<close> is a dictionary with \<open>reps\<close> and, for a failed set only,
  \<open>failed\<close>; a missing \<open>failed\<close> reads as false. \<open>StrengthSet\<close> adds the weight.
\<close>

record rep_entry =
  reps :: int
  failed :: bool

record StrengthSet = rep_entry +
  weight :: "rat option"

text \<open>
  The record the parser returns is a dictionary; a key that is not set is \<open>None\<close>.
  The keys \<open>type\<close> and \<open>notes\<close> are the fields \<open>rtype\<close> and \<open>rnotes\<close>.
\<close>

record WorkoutRecord =
  ts :: string
  rtype :: "string option"
  exercise :: "string option"
  sets :: "StrengthSet list option"
  unit :: "string option"
  modality :: "string option"
  duration_min :: "rat option"
  speed_mph :: "rat option"
  incline_percent :: "rat option"
  distance_miles :: "rat option"
  rpe :: "int option"
  rnotes :: "string option"
  source :: "string option"
  raw :: "string option"

definition new_record :: "string \<Rightarrow> string option \<Rightarrow> WorkoutRecord" where
  "new_record iso_ts ty =
     \<lparr>ts = iso_ts, rtype = ty, exercise = None, sets = None, unit = None, modality = None,
      duration_min = None, speed_mph = None, incline_percent = None, distance_miles = None,
      rpe = None, rnotes = None, source = None, raw = None\<rparr>"

section \<open>Exercise tables\<close>

definition EXERCISE_MAP :: "(string \<times> string) list" where
  "EXERCISE_MAP = [
     (''squat'', ''squat''), (''sq'', ''squat''),
     (''bench'', ''bench_press''), (''bench press'', ''bench_press''), (''bp'', ''bench_press''),
     (''deadlift'', ''deadlift''), (''dl'', ''deadlift''),
     (''ohp'', ''ohp''), (''overhead press'', ''ohp''), (''op'', ''ohp''), (''press'', ''ohp''),
     (''row'', ''barbell_row''), (''rows'', ''barbell_row''),
     (''barbell row'', ''barbell_row''), (''bent over row'', ''barbell_row''),
     (''incline row'', ''incline_row''),
     (''weighted dip'', ''weighted_dip''), (''dip'', ''dip''),
     (''chin up'', ''chin_up''), (''chin-up'', ''chin_up''), (''chinup'', ''chin_up''),
     (''weighted chin up'', ''weighted_chin_up''),
     (''pull up'', ''pull_up''), (''pull-up'', ''pull_up''), (''pullup'', ''pull_up''),
     (''weighted pull up'', ''weighted_pull_up''), (''weighted pullup'', ''weighted_pull_up''),
     (''weighted pull-up'', ''weighted_pull_up''),
     (''dragon flag'', ''dragon_flag''), (''dragon-flag'', ''dragon_flag''),
     (''dragonflag'', ''dragon_flag''),
     (''shrug'', ''shrug''),
     (''db bench'', ''dumbbell_bench_press''), (''dumbbell bench'', ''dumbbell_bench_press''),
     (''db press'', ''dumbbell_bench_press''),
     (''chest press'', ''chest_press_machine''),
     (''chest press machine'', ''chest_press_machine''),
     (''tricep dip machine'', ''tricep_dip_machine''), (''triceip dip'', ''tricep_dip_machine''),
     (''ab crunch'', ''ab_crunch''), (''ab_crunch'', ''ab_crunch''),
     (''cybex ab crunch'', ''cybex_ab_crunch''), (''cybex_ab_crunch'', ''cybex_ab_crunch''),
     (''leg press'', ''leg_press''), (''leg_press'', ''leg_press''),
     (''hack squat'', ''hack_squat''), (''hack_squat'', ''hack_squat''),
     (''face pulls'', ''face_pulls''), (''face pull'', ''face_pulls''),
     (''lat pulldown'', ''lat_pulldown''), (''lat pull down'', ''lat_pulldown''),
     (''lat pull-down'', ''lat_pulldown''),
     (''treadmill'', ''treadmill''), (''tm'', ''treadmill''),
     (''rowing'', ''rowing''), (''rower'', ''rowing''), (''row machine'', ''rowing''),
     (''bike'', ''stationary_bike''), (''stationary bike'', ''stationary_bike'')]"

definition EXERCISE_TYPE :: "(string \<times> string) list" where
  "EXERCISE_TYPE = [
     (''squat'', ''strength''), (''bench_press'', ''strength''), (''deadlift'', ''strength''),
     (''ohp'', ''strength''), (''barbell_row'', ''strength''), (''incline_row'', ''strength''),
     (''weighted_dip'', ''strength''), (''dumbbell_bench_press'', ''strength''),
     (''shrug'', ''strength''),
     (''dip'', ''bodyweight''), (''chin_up'', ''bodyweight''),
     (''weighted_chin_up'', ''bodyweight''), (''pull_up'', ''bodyweight''),
     (''weighted_pull_up'', ''bodyweight''), (''dragon_flag'', ''bodyweight''),
     (''chest_press_machine'', ''machine''), (''tricep_dip_machine'', ''machine''),
     (''ab_crunch'', ''machine''), (''cybex_ab_crunch'', ''machine''),
     (''leg_press'', ''machine''), (''hack_squat'', ''machine''),
     (''face_pulls'', ''machine''), (''lat_pulldown'', ''machine''),
     (''treadmill'', ''cardio''), (''rowing'', ''cardio''), (''stationary_bike'', ''cardio'')]"

definition normalizeExercise :: "string \<Rightarrow> string option" where
  "normalizeExercise exercise_str = map_of EXERCISE_MAP (strip (lower exercise_str))"

definition getExerciseType :: "string \<Rightarrow> string option" where
  "getExerciseType exercise_norm = map_of EXERCISE_TYPE exercise_norm"

section \<open>Dates\<close>

text \<open>
  The reference instant enters as the civil fields it has in the zone
  \<open>America/Los_Angeles\<close>, after the conversion the program applies first; \<open>dt_dst\<close> says
  whether daylight time is in force, which fixes the offset text of \<open>strftime('%z')\<close> as
  the program's comment lists it (\<open>-08:00\<close> standard, \<open>-07:00\<close> daylight). The zone
  database itself, and instants older than the zone's standard time, are not modelled.
\<close>

record instant =
  dt_year :: nat
  dt_month :: nat
  dt_day :: nat
  dt_hour :: nat
  dt_minute :: nat
  dt_second :: nat
  dt_dst :: bool

type_synonym date = "nat \<times> nat \<times> nat"

definition date_of :: "instant \<Rightarrow> date" where
  "date_of t = (dt_year t, dt_month t, dt_day t)"

definition is_leap :: "nat \<Rightarrow> bool" where
  "is_leap y = (if y mod 100 = 0 then y mod 400 = 0 else y mod 4 = 0)"

definition days_in_month :: "nat \<Rightarrow> nat \<Rightarrow> nat" where
  "days_in_month y m =
     (if m = 2 then (if is_leap y then 29 else 28)
      else if m \<in> set [4, 6, 9, 11] then 30 else 31)"

text \<open>\<open>d - timedelta(days=1)\<close> on the civil date; below 0001-01-01 it overflows.\<close>

definition minus_one_day :: "date \<Rightarrow> date option" where
  "minus_one_day d =
     (case d of (y, m, dd) \<Rightarrow>
        if 1 < dd then Some (y, m, dd - 1)
        else if 1 < m then Some (y, m - 1, days_in_month y (m - 1))
        else if 1 < y then Some (y - 1, 12, 31)
        else None)"

definition num :: rx where
  "num = Seq (Plus Digit) (Opt (Seq (One (Ch CHR ''.'')) (Plus Digit)))"

definition iso_date_rx :: rx where
  "iso_date_rx =
     seqs [One Digit, One Digit, One Digit, One Digit, One (Ch CHR ''-''),
           One Digit, One Digit, One (Ch CHR ''-''), One Digit, One Digit]"

text \<open>\<open>^(\d{4})-(\d{2})-(\d{2})$\<close>\<close>

definition parseDate_rx :: rx where
  "parseDate_rx =
     seqs [Grp 1 (seqs [One Digit, One Digit, One Digit, One Digit]), One (Ch CHR ''-''),
           Grp 2 (seqs [One Digit, One Digit]), One (Ch CHR ''-''),
           Grp 3 (seqs [One Digit, One Digit]), Eol]"

definition date_fields :: "date \<Rightarrow> date \<times> string \<times> string \<times> string" where
  "date_fields d = (case d of (y, m, dd) \<Rightarrow> (d, zpad 4 y, zpad 2 m, zpad 2 dd))"

definition parseDate ::
  "string option \<Rightarrow> instant \<Rightarrow> error + (date \<times> string \<times> string \<times> string)" where
  "parseDate date_str base_date =
     (case date_str of
        None \<Rightarrow> Inr (date_fields (date_of base_date))
      | Some ds \<Rightarrow>
          if ds = [] then Inr (date_fields (date_of base_date))
          else if strip (lower ds) = ''yesterday'' then
            (case minus_one_day (date_of base_date) of
               None \<Rightarrow> Inl DateOverflow
             | Some d \<Rightarrow> Inr (date_fields d))
          else if strip (lower ds) = ''today'' then Inr (date_fields (date_of base_date))
          else
            (case re_match parseDate_rx ds of
               Some m \<Rightarrow> Inr (date_of base_date, grp m 1, grp m 2, grp m 3)
             | None \<Rightarrow> Inl (InvalidDate ds)))"

section \<open>Rep lists\<close>

text \<open>\<open>trimmed in ('x', 'f', 'fail')\<close>: the markers of a failed set.\<close>

definition is_fail_marker :: "string \<Rightarrow> bool" where
  "is_fail_marker t = (t \<in> set [''x'', ''f'', ''fail''])"

fun rep_loop :: "string list \<Rightarrow> rep_entry list \<Rightarrow> error + rep_entry list" where
  "rep_loop [] result = Inr result"
| "rep_loop (p # ps) result =
     (let trimmed = lower (strip p) in
      if is_fail_marker trimmed
      then rep_loop ps (result @ [\<lparr>reps = 0, failed = True\<rparr>])
      else (case py_int trimmed of
              None \<Rightarrow> Inl (InvalidRepToken trimmed)
            | Some v \<Rightarrow> rep_loop ps (result @ [\<lparr>reps = v, failed = False\<rparr>])))"

definition parseRepList :: "string \<Rightarrow> error + rep_entry list" where
  "parseRepList rep_str = rep_loop (split_on CHR '','' rep_str) []"

section \<open>Strength, bodyweight and machine entries\<close>

text \<open>\<open>int(s)\<close> on text matched by \<open>\d+\<close> is its decimal value.\<close>

definition int_digits :: "string \<Rightarrow> int" where
  "int_digits s = int (digits_val s)"

definition mk_set :: "rat option \<Rightarrow> int \<Rightarrow> bool \<Rightarrow> StrengthSet" where
  "mk_set w r f = \<lparr>reps = r, failed = f, weight = w\<rparr>"

text \<open>The list comprehension \<open>[int(r.strip()) for r in pieces]\<close>.\<close>

fun int_list :: "string list \<Rightarrow> error + int list" where
  "int_list [] = Inr []"
| "int_list (r # rs) =
     (case py_int (strip r) of
        None \<Rightarrow> Inl (InvalidRepToken (strip r))
      | Some v \<Rightarrow> (case int_list rs of Inl e \<Rightarrow> Inl e | Inr vs \<Rightarrow> Inr (v # vs)))"

text \<open>The patterns of \<open>parseStrengthWorkout\<close>, in the order the cascade tries them.\<close>

definition x_ci :: rx where
  "x_ci = One (ChI CHR ''x'')"

text \<open>\<open>^\d+$\<close>\<close>
definition bare_int_rx :: rx where
  "bare_int_rx = Seq (Plus Digit) Eol"

text \<open>\<open>^[\d,xfXF]+$\<close>\<close>
definition replist_rx :: rx where
  "replist_rx =
     Seq (Plus (Or Digit (Or (Ch CHR '','') (Or (Ch CHR ''x'') (Or (Ch CHR ''f'')
            (Or (Ch CHR ''X'') (Ch CHR ''F''))))))) Eol"

text \<open>\<open>^2x(\d+)$\<close>, ignoring case\<close>
definition db_pair_rx :: rx where
  "db_pair_rx = seqs [One (Ch CHR ''2''), x_ci, Grp 1 (Plus Digit), Eol]"

text \<open>\<open>^(\d+)x([\d,]+)$\<close>, ignoring case\<close>
definition db_sets_rx :: rx where
  "db_sets_rx = seqs [Grp 1 (Plus Digit), x_ci, Grp 2 (Plus (Or Digit (Ch CHR '',''))), Eol]"

text \<open>\<open>^(\d+(?:\.\d+)?)x(\d+)$\<close>, ignoring case\<close>
definition nxm_rx :: rx where
  "nxm_rx = seqs [Grp 1 num, x_ci, Grp 2 (Plus Digit), Eol]"

text \<open>\<open>^x?(\d+)$\<close>, ignoring case\<close>
definition third_rx :: rx where
  "third_rx = seqs [Opt x_ci, Grp 1 (Plus Digit), Eol]"

text \<open>\<open>^(\d+(?:\.\d+)?)x(\d+)x(\d+)$\<close>, ignoring case\<close>
definition nxmxp_rx :: rx where
  "nxmxp_rx = seqs [Grp 1 num, x_ci, Grp 2 (Plus Digit), x_ci, Grp 3 (Plus Digit), Eol]"

text \<open>\<open>^\d+(?:\.\d+)?$\<close>\<close>
definition bare_num_rx :: rx where
  "bare_num_rx = Seq num Eol"

text \<open>\<open>^(\d+)x(\d+)$\<close>, ignoring case\<close>
definition sxr_rx :: rx where
  "sxr_rx = seqs [Grp 1 (Plus Digit), x_ci, Grp 2 (Plus Digit), Eol]"

text \<open>\<open>rpe(\d+)\<close> and \<open>rpe\d+\<close>, ignoring case\<close>
definition rpe_rx :: rx where
  "rpe_rx = Seq (wordI ''rpe'') (Grp 1 (Plus Digit))"

definition rpe_sub_rx :: rx where
  "rpe_sub_rx = Seq (wordI ''rpe'') (Plus Digit)"

text \<open>
  The dumbbell branch: the pair notation gives the weight; a second part of the form
  \<open>4x10,7\<close> gives the sets. The result is the sets, the note and the parts consumed.
\<close>

definition dumbbell_sets ::
  "rat \<Rightarrow> string list \<Rightarrow> error + (StrengthSet list \<times> string \<times> nat)" where
  "dumbbell_sets w later =
     (case later of
        [] \<Rightarrow> Inr ([], [], 1)
      | sets_format # _ \<Rightarrow>
          (case re_match db_sets_rx sets_format of
             None \<Rightarrow> Inr ([], [], 1)
           | Some sets_match \<Rightarrow>
               (case int_list (split_on CHR '','' (grp sets_match 2)) of
                  Inl e \<Rightarrow> Inl e
                | Inr [] \<Rightarrow> Inl IndexError
                | Inr (main_reps # others) \<Rightarrow>
                    (let uniform_sets = digits_val (grp sets_match 1);
                         new_sets = replicate uniform_sets (mk_set (Some w) main_reps False)
                                    @ map (\<lambda>r. mk_set (Some w) r False) others
                     in Inr (new_sets, if new_sets \<noteq> [] then ''per dumbbell'' else [], 2)))))"

text \<open>
  The cascade over the first one or two parts. It yields the sets, the weight variable,
  the note seeded by the branch and the number of parts consumed.
\<close>

definition strength_format ::
  "bool \<Rightarrow> bool \<Rightarrow> string \<Rightarrow> string list \<Rightarrow>
   error + (StrengthSet list \<times> rat option \<times> string \<times> nat)" where
  "strength_format is_bodyweight is_dumbbell rest parts =
     (case parts of
        [] \<Rightarrow> Inl NoFormat
      | first_part # later \<Rightarrow>
          if first_part = [] then Inl NoFormat
          else if is_bodyweight \<and> re_match bare_int_rx first_part \<noteq> None then
            Inr ([mk_set None (int_digits first_part) False], None, [], 1)
          else if re_match replist_rx first_part \<noteq> None \<and> CHR '','' \<in> set first_part then
            (case parseRepList first_part of
               Inl e \<Rightarrow> Inl e
             | Inr rep_list \<Rightarrow>
                 Inr (map (\<lambda>r. if failed r then mk_set None 0 True
                                else mk_set None (reps r) False) rep_list,
                      None, [], 1))
          else if is_dumbbell \<and> re_match db_pair_rx first_part \<noteq> None then
            (let w = py_float (grp (the (re_match db_pair_rx first_part)) 1) in
             case dumbbell_sets w later of
               Inl e \<Rightarrow> Inl e
             | Inr (new_sets, note, parts_consumed) \<Rightarrow>
                 Inr (new_sets, Some w, note, parts_consumed))
          else if re_match nxm_rx first_part \<noteq> None then
            (let m = the (re_match nxm_rx first_part);
                 num1 = py_float (grp m 1);
                 num2 = digits_val (grp m 2)
             in if later \<noteq> [] \<and> re_match third_rx (hd later) \<noteq> None then
                  (let reps_per_set = int_digits (grp (the (re_match third_rx (hd later))) 1)
                   in Inr (replicate num2 (mk_set (Some num1) reps_per_set False),
                           Some num1, [], 2))
                else if is_bodyweight then
                  Inr (replicate (trunc num1) (mk_set None (int num2) False), None, [], 1)
                else Inr ([mk_set (Some num1) (int num2) False], Some num1, [], 1))
          else if re_match nxmxp_rx first_part \<noteq> None then
            (let m = the (re_match nxmxp_rx first_part);
                 w = py_float (grp m 1);
                 set_count = digits_val (grp m 2);
                 reps_per_set = int_digits (grp m 3)
             in Inr (replicate set_count (mk_set (Some w) reps_per_set False), Some w, [], 1))
          else if re_match bare_num_rx first_part \<noteq> None \<and> later \<noteq> []
                  \<and> re_match sxr_rx (hd later) \<noteq> None then
            (let w = py_float first_part;
                 sets_match = the (re_match sxr_rx (hd later));
                 sets_count = digits_val (grp sets_match 1);
                 reps_count = int_digits (grp sets_match 2)
             in Inr (replicate sets_count (mk_set (Some w) reps_count False), Some w, [], 2))
          else if re_match bare_num_rx first_part \<noteq> None \<and> later \<noteq> []
                  \<and> re_match replist_rx (hd later) \<noteq> None then
            (let w = py_float first_part in
             case parseRepList (hd later) of
               Inl e \<Rightarrow> Inl e
             | Inr rep_list \<Rightarrow>
                 Inr (map (\<lambda>r. mk_set (Some w) (reps r) (failed r)) rep_list, Some w, [], 2))
          else Inl (UnparsableFormat rest))"

definition parseStrengthWorkout :: "string \<Rightarrow> string \<Rightarrow> string \<Rightarrow> error + WorkoutRecord" where
  "parseStrengthWorkout exercise_norm rest iso_ts =
     (let exercise_type = getExerciseType exercise_norm;
          is_bodyweight = (exercise_type = Some ''bodyweight'')
      in if strip rest = [] then
           Inr ((new_record iso_ts exercise_type)
                  \<lparr>exercise := Some exercise_norm, sets := Some []\<rparr>)
         else
           (let parts = split_ws (strip rest);
                is_dumbbell = contains exercise_norm ''dumbbell''
            in case strength_format is_bodyweight is_dumbbell rest parts of
                 Inl e \<Rightarrow> Inl e
               | Inr (sets0, weight0, notes0, parts_consumed) \<Rightarrow>
                   (let remaining = join_sp (drop parts_consumed parts);
                        rpe0 = (case re_search rpe_rx remaining of
                                  None \<Rightarrow> None
                                | Some rpe_match \<Rightarrow> Some (int_digits (grp rpe_match 1)));
                        notes_from_remaining = strip (re_sub rpe_sub_rx [] remaining);
                        notes1 = (if notes_from_remaining \<noteq> []
                                  then (if notes0 \<noteq> []
                                        then notes0 @ ''; '' @ notes_from_remaining
                                        else notes_from_remaining)
                                  else notes0)
                    in Inr ((new_record iso_ts exercise_type)
                              \<lparr>exercise := Some exercise_norm,
                               unit := (if weight0 \<noteq> None then Some ''lb'' else None),
                               sets := Some sets0,
                               rpe := rpe0,
                               rnotes := (if notes1 \<noteq> [] then Some notes1 else None)\<rparr>))))"

section \<open>Cardio entries\<close>

text \<open>\<open>(\d+(?:\.\d+)?)\s*min(?:ute)?s?\<close> and the same text without the group\<close>
definition dur_rx :: rx where
  "dur_rx = seqs [Grp 1 num, Star Space, wordI ''min'', Opt (wordI ''ute''),
                  Opt (One (ChI CHR ''s''))]"

definition dur_sub_rx :: rx where
  "dur_sub_rx = seqs [num, Star Space, wordI ''min'', Opt (wordI ''ute''),
                      Opt (One (ChI CHR ''s''))]"

text \<open>\<open>(\d+(?:\.\d+)?)\s*mph\<close>\<close>
definition speed_rx :: rx where
  "speed_rx = seqs [Grp 1 num, Star Space, wordI ''mph'']"

definition speed_sub_rx :: rx where
  "speed_sub_rx = seqs [num, Star Space, wordI ''mph'']"

text \<open>\<open>(\d+(?:\.\d+)?)\s*degree\s*incline|incline\s*(\d+(?:\.\d+)?)\<close>\<close>
definition incline_rx :: rx where
  "incline_rx =
     Alt (seqs [Grp 1 num, Star Space, wordI ''degree'', Star Space, wordI ''incline''])
         (seqs [wordI ''incline'', Star Space, Grp 2 num])"

text \<open>\<open>\d+(?:\.\d+)?\s*degree\s*incline\<close> and \<open>incline\s*\d+(?:\.\d+)?\<close>\<close>
definition degree_incline_sub_rx :: rx where
  "degree_incline_sub_rx =
     seqs [num, Star Space, wordI ''degree'', Star Space, wordI ''incline'']"

definition incline_num_sub_rx :: rx where
  "incline_num_sub_rx = seqs [wordI ''incline'', Star Space, num]"

text \<open>\<open>(\d+(?:\.\d+)?)\s*miles?\<close>\<close>
definition dist_rx :: rx where
  "dist_rx = seqs [Grp 1 num, Star Space, wordI ''mile'', Opt (One (ChI CHR ''s''))]"

definition dist_sub_rx :: rx where
  "dist_sub_rx = seqs [num, Star Space, wordI ''mile'', Opt (One (ChI CHR ''s''))]"

text \<open>\<open>[,\s]+\<close>\<close>
definition sep_rx :: rx where
  "sep_rx = Plus (Or (Ch CHR '','') Space)"

text \<open>\<open>m.group(1) or m.group(2)\<close>: the first group unless it is absent or empty.\<close>

definition group_or :: "rmatch \<Rightarrow> nat \<Rightarrow> nat \<Rightarrow> string" where
  "group_or m a b =
     (case group m a of
        Some g \<Rightarrow> if g \<noteq> [] then g else grp m b
      | None \<Rightarrow> grp m b)"

definition cardio_notes :: "string \<Rightarrow> string" where
  "cardio_notes rest =
     strip (re_sub sep_rx '' ''
       (re_sub dist_sub_rx []
         (re_sub incline_num_sub_rx []
           (re_sub degree_incline_sub_rx []
             (re_sub speed_sub_rx []
               (re_sub dur_sub_rx [] rest))))))"

definition parseCardioWorkout :: "string \<Rightarrow> string \<Rightarrow> string \<Rightarrow> WorkoutRecord" where
  "parseCardioWorkout exercise_norm rest iso_ts =
     (let lower_rest = lower rest;
          notes_text = cardio_notes rest
      in (new_record iso_ts (Some ''cardio''))
           \<lparr>modality := Some exercise_norm,
            duration_min := map_option (\<lambda>m. py_float (grp m 1)) (re_search dur_rx lower_rest),
            speed_mph := map_option (\<lambda>m. py_float (grp m 1)) (re_search speed_rx lower_rest),
            incline_percent :=
              map_option (\<lambda>m. py_float (group_or m 1 2)) (re_search incline_rx lower_rest),
            distance_miles := map_option (\<lambda>m. py_float (grp m 1)) (re_search dist_rx lower_rest),
            rnotes := (if notes_text \<noteq> [] then Some notes_text else None)\<rparr>)"

section \<open>The dispatcher\<close>

text \<open>\<open>^(yesterday|today|\d{4}-\d{2}-\d{2})(?:\s*:\s*|\s+)\<close>, ignoring case\<close>
definition date_start_rx :: rx where
  "date_start_rx =
     Seq (Grp 1 (Alt (wordI ''yesterday'') (Alt (wordI ''today'') iso_date_rx)))
         (Alt (seqs [Star Space, One (Ch CHR '':''), Star Space]) (Plus Space))"

text \<open>\<open>\s+(\d{4}-\d{2}-\d{2})\s*$\<close>\<close>
definition date_end_rx :: rx where
  "date_end_rx = seqs [Plus Space, Grp 1 iso_date_rx, Star Space, Eol]"

text \<open>
  The date modifier: the token, if any, and the content without it. Only a log entry
  looks for a date at the end.
\<close>

definition date_modifier :: "bool \<Rightarrow> string \<Rightarrow> string option \<times> string" where
  "date_modifier is_note content =
     (case re_match date_start_rx content of
        Some date_match_start \<Rightarrow>
          (Some (grp date_match_start 1), drop (length (whole date_match_start)) content)
      | None \<Rightarrow>
          if is_note then (None, content)
          else (case re_search date_end_rx content of
                  None \<Rightarrow> (None, content)
                | Some date_match_end \<Rightarrow>
                    (Some (grp date_match_end 1),
                     strip (case rfind content (grp date_match_end 1) of
                              Some i \<Rightarrow> take i content
                            | None \<Rightarrow> butlast content))))"

text \<open>\<open>strftime('%z')\<close> in the zone, and the timestamp text.\<close>

definition strftime_z :: "instant \<Rightarrow> string" where
  "strftime_z now = (if dt_dst now then ''-0700'' else ''-0800'')"

definition iso_timestamp :: "string \<Rightarrow> string \<Rightarrow> string \<Rightarrow> instant \<Rightarrow> string" where
  "iso_timestamp y m d now =
     (let offset = strftime_z now;
          offset_formatted = take 3 offset @ '':'' @ drop 3 offset
      in y @ ''-'' @ m @ ''-'' @ d @ ''T'' @ zpad 2 (dt_hour now) @ '':''
         @ zpad 2 (dt_minute now) @ '':'' @ zpad 2 (dt_second now) @ offset_formatted)"

text \<open>\<open>not x\<close> on an optional string: absent or empty.\<close>

definition falsy :: "string option \<Rightarrow> bool" where
  "falsy x = (x = None \<or> x = Some [])"

text \<open>
  The lookup of the exercise phrase: one word, then two, then three. It yields the last
  phrase tried, what it resolved to, and the number of words it spans.
\<close>

definition find_exercise :: "string list \<Rightarrow> string \<times> string option \<times> nat" where
  "find_exercise ws =
     (let name1 = ws ! 0; norm1 = normalizeExercise name1
      in if falsy norm1 \<and> 1 < length ws then
           (let name2 = ws ! 0 @ '' '' @ ws ! 1; norm2 = normalizeExercise name2
            in if falsy norm2 \<and> 2 < length ws then
                 (let name3 = ws ! 0 @ '' '' @ ws ! 1 @ '' '' @ ws ! 2
                  in (name3, normalizeExercise name3, 3))
               else (name2, norm2, 2))
         else (name1, norm1, 1))"

text \<open>
  The tail of \<open>parseWorkoutLog\<close>: the resolved exercise is routed by its type, and the
  source and the raw message are attached.
\<close>

definition route_exercise ::
  "string \<Rightarrow> string \<Rightarrow> string \<Rightarrow> string \<Rightarrow> string \<Rightarrow> string \<Rightarrow>
   error + (WorkoutRecord \<times> string)" where
  "route_exercise exercise_norm rest iso_ts src message date_string =
     (let exercise_type = getExerciseType exercise_norm
      in if exercise_type = Some ''cardio'' then
           Inr ((parseCardioWorkout exercise_norm rest iso_ts)
                  \<lparr>source := Some src, raw := Some message\<rparr>,
                date_string)
         else if exercise_type \<in> set [Some ''strength'', Some ''machine'', Some ''bodyweight''] then
           (case parseStrengthWorkout exercise_norm rest iso_ts of
              Inl e \<Rightarrow> Inl e
            | Inr r \<Rightarrow> Inr (r\<lparr>source := Some src, raw := Some message\<rparr>, date_string))
         else Inl (UnknownExerciseType exercise_norm))"

definition parseWorkoutLog ::
  "string \<Rightarrow> instant \<Rightarrow> string \<Rightarrow> error + (WorkoutRecord \<times> string)" where
  "parseWorkoutLog message now src =
     (let is_log = startswith message ''/log '';
          is_note = startswith message ''/note ''
      in if \<not> is_log \<and> \<not> is_note then Inl MissingPrefix
         else
           (let prefix_length = (if is_log then 5 else 6);
                content = strip (drop prefix_length message);
                (date_str, log_content) = date_modifier is_note content
            in case parseDate date_str now of
                 Inl e \<Rightarrow> Inl e
               | Inr (date_obj, y, m, d) \<Rightarrow>
                   (let iso_ts = iso_timestamp y m d now;
                        date_string = y @ ''-'' @ m @ ''-'' @ d
                    in if is_note then
                         Inr ((new_record iso_ts (Some ''note''))
                                \<lparr>rnotes := Some (strip log_content),
                                 source := Some src, raw := Some message\<rparr>,
                              date_string)
                       else
                         (let ws = split_ws log_content
                          in if ws = [] then Inl NoExercise
                             else
                               (case find_exercise ws of
                                  (exercise_name, exercise_norm, words_consumed) \<Rightarrow>
                                    if falsy exercise_norm then Inl (UnknownExercise exercise_name)
                                    else route_exercise (the exercise_norm)
                                           (join_sp (drop words_consumed ws))
                                           iso_ts src message date_string)))))"

text \<open>Reading a field of the record of a successful parse.\<close>

definition field_of :: "(WorkoutRecord \<Rightarrow> 'a) \<Rightarrow> error + (WorkoutRecord \<times> string) \<Rightarrow> 'a option" where
  "field_of f res = (case res of Inl e \<Rightarrow> None | Inr (r, d) \<Rightarrow> Some (f r))"

text \<open>The reference instant of the program's tests: 2026-02-16 10:30:00, standard time.\<close>

definition test_instant :: instant where
  "test_instant = \<lparr>dt_year = 2026, dt_month = 2, dt_day = 16, dt_hour = 10, dt_minute = 30,
                    dt_second = 0, dt_dst = False\<rparr>"

section \<open>Well-formed inputs and shapes used in the properties\<close>

text \<open>
  The ranges the host language guarantees for the fields of a date and time: years 1 to
  9999, a day that exists in its month, and a time of day without leap seconds.
\<close>

definition valid_instant :: "instant \<Rightarrow> bool" where
  "valid_instant t =
     (1 \<le> dt_year t \<and> dt_year t \<le> 9999 \<and> 1 \<le> dt_month t \<and> dt_month t \<le> 12
      \<and> 1 \<le> dt_day t \<and> dt_day t \<le> days_in_month (dt_year t) (dt_month t)
      \<and> dt_hour t < 24 \<and> dt_minute t < 60 \<and> dt_second t < 60)"

text \<open>The shape \<open>YYYY-MM-DDTHH:MM:SS+HH:MM\<close> (or with \<open>-\<close> before the offset).\<close>

definition ts_shape :: "string \<Rightarrow> bool" where
  "ts_shape s =
     (length s = 25
      \<and> list_all (\<lambda>i. is_digit (s ! i))
           [0, 1, 2, 3, 5, 6, 8, 9, 11, 12, 14, 15, 17, 18, 20, 21, 23, 24]
      \<and> map (\<lambda>i. s ! i) [4, 7, 10, 13, 16, 22] = ''--T:::''
      \<and> s ! 19 \<in> set ''+-'')"

text \<open>A number as the patterns read it: digits, optionally a point and more digits.\<close>

definition is_number :: "string \<Rightarrow> bool" where
  "is_number n =
     (let ip = takeWhile is_digit n; r = dropWhile is_digit n
      in ip \<noteq> [] \<and> (r = [] \<or> (hd r = CHR ''.'' \<and> tl r \<noteq> [] \<and> list_all is_digit (tl r))))"

text \<open>The phrase made of the first \<open>k\<close> words, and whether it resolves to an exercise.\<close>

definition phrase :: "nat \<Rightarrow> string list \<Rightarrow> string" where
  "phrase k ws = join_sp (take k ws)"

definition resolves :: "string \<Rightarrow> bool" where
  "resolves p = (\<not> falsy (normalizeExercise p))"

section \<open>Auxiliary facts\<close>






lemma rep_loop_failed:
  "rep_loop ps acc = Inr res \<Longrightarrow> \<forall>e\<in>set acc. failed e \<longrightarrow> reps e = 0
   \<Longrightarrow> \<forall>e\<in>set res. failed e \<longrightarrow> reps e = 0"
proof (induction ps arbitrary: acc)
  case Nil
  then show ?case by simp
next
  case (Cons p ps)
  let ?t = "lower (strip p)"
  show ?case
  proof (cases "is_fail_marker ?t")
    case True
    with Cons.prems(1) have r: "rep_loop ps (acc @ [\<lparr>reps = 0, failed = True\<rparr>]) = Inr res"
      by (simp add: Let_def)
    have "\<forall>e\<in>set (acc @ [\<lparr>reps = 0, failed = True\<rparr>]). failed e \<longrightarrow> reps e = 0"
      using Cons.prems(2) by simp
    from Cons.IH [OF r this] show ?thesis .
  next
    case False
    show ?thesis
    proof (cases "py_int ?t")
      case None
      with False Cons.prems(1) show ?thesis by (simp add: Let_def)
    next
      case (Some v)
      with False Cons.prems(1)
      have r: "rep_loop ps (acc @ [\<lparr>reps = v, failed = False\<rparr>]) = Inr res"
        by (simp add: Let_def)
      have "\<forall>e\<in>set (acc @ [\<lparr>reps = v, failed = False\<rparr>]). failed e \<longrightarrow> reps e = 0"
        using Cons.prems(2) by simp
      from Cons.IH [OF r this] show ?thesis .
    qed
  qed
qed

lemma parseRepList_failed:
  "parseRepList s = Inr res \<Longrightarrow> e \<in> set res \<Longrightarrow> failed e \<Longrightarrow> reps e = 0"
  unfolding parseRepList_def using rep_loop_failed[of _ "[]" res] by auto

lemma dumbbell_sets_inv:
  "dumbbell_sets w later = Inr (ss, n, k) \<Longrightarrow> s \<in> set ss \<Longrightarrow> \<not> failed s \<and> weight s = Some w"
  unfolding dumbbell_sets_def
  by (auto simp: Let_def mk_set_def split: list.splits option.splits sum.splits if_splits)

lemma strength_format_inv:
  assumes "strength_format bw db rest parts = Inr (ss, w, n, k)"
  shows "\<forall>s\<in>set ss. (failed s \<longrightarrow> reps s = 0) \<and> weight s = w"
proof (cases parts)
  case Nil
  with assms show ?thesis by (simp add: strength_format_def)
next
  case (Cons first_part later)
  define c1 where "c1 \<longleftrightarrow> bw \<and> re_match bare_int_rx first_part \<noteq> None"
  define c2 where "c2 \<longleftrightarrow> re_match replist_rx first_part \<noteq> None \<and> CHR '','' \<in> set first_part"
  define c3 where "c3 \<longleftrightarrow> db \<and> re_match db_pair_rx first_part \<noteq> None"
  define c4 where "c4 \<longleftrightarrow> re_match nxm_rx first_part \<noteq> None"
  define c5 where "c5 \<longleftrightarrow> re_match nxmxp_rx first_part \<noteq> None"
  define c6 where "c6 \<longleftrightarrow> re_match bare_num_rx first_part \<noteq> None \<and> later \<noteq> []
                        \<and> re_match sxr_rx (hd later) \<noteq> None"
  define c7 where "c7 \<longleftrightarrow> re_match bare_num_rx first_part \<noteq> None \<and> later \<noteq> []
                        \<and> re_match replist_rx (hd later) \<noteq> None"
  note a = assms [unfolded strength_format_def Cons list.case,
                  folded c1_def c2_def c3_def c4_def c5_def c6_def c7_def]
  consider (e) "first_part = []"
    | (b1) "first_part \<noteq> []" "c1"
    | (b2) "first_part \<noteq> []" "\<not> c1" "c2"
    | (b3) "first_part \<noteq> []" "\<not> c1" "\<not> c2" "c3"
    | (b4) "first_part \<noteq> []" "\<not> c1" "\<not> c2" "\<not> c3" "c4"
    | (b5) "first_part \<noteq> []" "\<not> c1" "\<not> c2" "\<not> c3" "\<not> c4" "c5"
    | (b6) "first_part \<noteq> []" "\<not> c1" "\<not> c2" "\<not> c3" "\<not> c4" "\<not> c5" "c6"
    | (b7) "first_part \<noteq> []" "\<not> c1" "\<not> c2" "\<not> c3" "\<not> c4" "\<not> c5" "\<not> c6" "c7"
    | (u) "first_part \<noteq> []" "\<not> c1" "\<not> c2" "\<not> c3" "\<not> c4" "\<not> c5" "\<not> c6" "\<not> c7"
    by blast
  then show ?thesis
  proof cases
    case e
    then show ?thesis using a by simp
  next
    case b1
    then show ?thesis using a by (auto simp: mk_set_def)
  next
    case b2
    then have b: "(case parseRepList first_part of
                     Inl e \<Rightarrow> Inl e
                   | Inr rep_list \<Rightarrow>
                       Inr (map (\<lambda>r. if failed r then mk_set None 0 True
                                      else mk_set None (reps r) False) rep_list,
                            None, [], 1)) = Inr (ss, w, n, k)"
      using a by simp
    show ?thesis
    proof (cases "parseRepList first_part")
      case (Inl e)
      with b show ?thesis by simp
    next
      case (Inr rl)
      with b have "ss = map (\<lambda>r. if failed r then mk_set None 0 True
                                   else mk_set None (reps r) False) rl"
        and "w = None" by auto
      then show ?thesis by (auto simp: mk_set_def)
    qed
  next
    case b3
    then show ?thesis using a
      by (auto simp: Let_def split: sum.splits dest: dumbbell_sets_inv)
  next
    case b4
    then show ?thesis using a by (auto simp: Let_def mk_set_def split: if_splits)
  next
    case b5
    then show ?thesis using a by (auto simp: Let_def mk_set_def)
  next
    case b6
    then show ?thesis using a by (auto simp: Let_def mk_set_def)
  next
    case b7
    then have b: "(case parseRepList (hd later) of
                     Inl e \<Rightarrow> Inl e
                   | Inr rep_list \<Rightarrow>
                       Inr (map (\<lambda>r. mk_set (Some (py_float first_part)) (reps r) (failed r))
                              rep_list, Some (py_float first_part), [], 2))
                  = Inr (ss, w, n, k)"
      using a by (simp add: Let_def)
    show ?thesis
    proof (cases "parseRepList (hd later)")
      case (Inl e)
      with b show ?thesis by simp
    next
      case (Inr rl)
      with b have "ss = map (\<lambda>r. mk_set (Some (py_float first_part)) (reps r) (failed r)) rl"
        and "w = Some (py_float first_part)" by auto
      with parseRepList_failed [OF Inr] show ?thesis by (auto simp: mk_set_def)
    qed
  next
    case u
    then show ?thesis using a by simp
  qed
qed


lemma parseStrengthWorkout_Inr:
  assumes "parseStrengthWorkout en rest its = Inr r"
  shows "ts r = its \<and> (\<exists>ss w. sets r = Some ss
           \<and> unit r = (if w \<noteq> None then Some ''lb'' else None)
           \<and> (\<forall>s\<in>set ss. (failed s \<longrightarrow> reps s = 0) \<and> weight s = w))"
proof (cases "strip rest = []")
  case True
  with assms have "r = (new_record its (getExerciseType en))\<lparr>exercise := Some en, sets := Some []\<rparr>"
    by (simp add: parseStrengthWorkout_def Let_def)
  then have "ts r = its" "sets r = Some []" "unit r = None" by (simp_all add: new_record_def)
  then show ?thesis by auto
next
  case False
  let ?sf = "strength_format (getExerciseType en = Some ''bodyweight'') (contains en ''dumbbell'')
               rest (split_ws (strip rest))"
  show ?thesis
  proof (cases ?sf)
    case (Inl e)
    with False assms show ?thesis by (simp add: parseStrengthWorkout_def Let_def)
  next
    case (Inr q)
    obtain ss w n k where q: "q = (ss, w, n, k)" by (cases q) auto
    from Inr q False assms
    have "ts r = its" "sets r = Some ss" "unit r = (if w \<noteq> None then Some ''lb'' else None)"
      by (auto simp: parseStrengthWorkout_def Let_def new_record_def)
    moreover from strength_format_inv [OF Inr [unfolded q]]
    have "\<forall>s\<in>set ss. (failed s \<longrightarrow> reps s = 0) \<and> weight s = w" .
    ultimately show ?thesis by blast
  qed
qed

lemma route_exercise_Inr:
  assumes "route_exercise en rest its src message ds = Inr (r, d)"
  shows "d = ds \<and> ts r = its \<and>
         (sets r = None \<or> (\<exists>r0. parseStrengthWorkout en rest its = Inr r0
                             \<and> sets r = sets r0 \<and> unit r = unit r0))"
proof (cases "getExerciseType en = Some ''cardio''")
  case True
  with assms show ?thesis
    by (auto simp: route_exercise_def parseCardioWorkout_def Let_def new_record_def)
next
  case False
  show ?thesis
  proof (cases "getExerciseType en \<in> set [Some ''strength'', Some ''machine'', Some ''bodyweight'']")
    case t: True
    show ?thesis
    proof (cases "parseStrengthWorkout en rest its")
      case (Inl e)
      with False t assms show ?thesis by (simp add: route_exercise_def Let_def)
    next
      case (Inr r0)
      with False t assms have "r = r0\<lparr>source := Some src, raw := Some message\<rparr>" "d = ds"
        by (simp_all add: route_exercise_def Let_def)
      with parseStrengthWorkout_Inr [OF Inr] Inr show ?thesis by simp
    qed
  next
    case f: False
    with False assms show ?thesis by (simp add: route_exercise_def Let_def)
  qed
qed

lemma parseWorkoutLog_Inr:
  assumes "parseWorkoutLog message now src = Inr (r, d)"
  shows "\<exists>date_str lc dobj y m dd.
           date_modifier (startswith message ''/note '')
             (strip (drop (if startswith message ''/log '' then 5 else 6) message)) = (date_str, lc)
         \<and> parseDate date_str now = Inr (dobj, y, m, dd)
         \<and> d = y @ ''-'' @ m @ ''-'' @ dd
         \<and> ts r = iso_timestamp y m dd now
         \<and> (sets r = None \<or> (\<exists>en rest r0. parseStrengthWorkout en rest (iso_timestamp y m dd now) = Inr r0
                             \<and> sets r = sets r0 \<and> unit r = unit r0))"
proof -
  let ?log = "startswith message ''/log ''" and ?note = "startswith message ''/note ''"
  let ?content = "strip (drop (if ?log then 5 else 6) message)"
  obtain date_str lc where dm: "date_modifier ?note ?content = (date_str, lc)"
    by (cases "date_modifier ?note ?content") auto
  have pre: "?log \<or> ?note"
  proof (rule ccontr)
    assume "\<not> (?log \<or> ?note)"
    then have "parseWorkoutLog message now src = Inl MissingPrefix"
      by (simp add: parseWorkoutLog_def)
    with assms show False by simp
  qed
  show ?thesis
  proof (cases "parseDate date_str now")
    case (Inl e)
    show ?thesis
    proof (cases ?note)
      case True
      with assms dm Inl show ?thesis by (simp add: parseWorkoutLog_def Let_def)
    next
      case False
      with pre have ?log by simp
      with False assms dm Inl show ?thesis by (simp add: parseWorkoutLog_def Let_def)
    qed
  next
    case (Inr q)
    obtain dobj y m dd where q: "q = (dobj, y, m, dd)" by (cases q) auto
    note pd = Inr [unfolded q]
    let ?its = "iso_timestamp y m dd now"
    show ?thesis
    proof (cases ?note)
      case True
      with assms dm pd
      have "d = y @ ''-'' @ m @ ''-'' @ dd" "ts r = ?its" "sets r = None"
        by (auto simp: parseWorkoutLog_def Let_def new_record_def)
      with dm pd show ?thesis by blast
    next
      case False
      with pre have l: ?log by simp
      show ?thesis
      proof (cases "split_ws lc = []")
        case True
        with assms dm pd False l show ?thesis by (simp add: parseWorkoutLog_def Let_def)
      next
        case ne: False
        obtain nm nrm k where fe: "find_exercise (split_ws lc) = (nm, nrm, k)"
          by (cases "find_exercise (split_ws lc)") auto
        show ?thesis
        proof (cases "falsy nrm")
          case True
          with assms dm pd False l ne fe show ?thesis by (simp add: parseWorkoutLog_def Let_def)
        next
          case nf: False
          with assms dm pd False l ne fe
          have "route_exercise (the nrm) (join_sp (drop k (split_ws lc))) ?its src message
                  (y @ ''-'' @ m @ ''-'' @ dd) = Inr (r, d)"
            by (simp add: parseWorkoutLog_def Let_def)
          from route_exercise_Inr [OF this] dm pd show ?thesis by blast
        qed
      qed
    qed
  qed
qed

section \<open>The fused weight x sets x reps example\<close>


section \<open>Empty notes\<close>



section \<open>The weight unit\<close>

text \<open>
  C2, as stated: the unit is present exactly when some set carries a weight. It fails for
  a dumbbell entry that gives only the pair notation: the weight is read, so the unit is
  set, and no set is produced.
\<close>

theorem unit_without_weighted_set:
  "field_of unit (parseWorkoutLog ''/log db bench 2x90'' test_instant ''cli'') = Some (Some ''lb'')
   \<and> field_of sets (parseWorkoutLog ''/log db bench 2x90'' test_instant ''cli'') = Some (Some [])"
  by code_simp

text \<open>
  C2, amended. In every record of the strength, bodyweight and machine path the unit is
  absent or \<open>lb\<close>; it is \<open>lb\<close> whenever some set carries a weight, and when it is
  \<open>lb\<close> every set of the record carries a weight. So for a record with at least one set
  the unit is present exactly when some set carries a weight.
\<close>

theorem strength_unit_weight:
  assumes "parseStrengthWorkout en rest its = Inr r"
  shows "\<exists>ss. sets r = Some ss
           \<and> (unit r = None \<or> unit r = Some ''lb'')
           \<and> ((\<exists>s\<in>set ss. weight s \<noteq> None) \<longrightarrow> unit r = Some ''lb'')
           \<and> (unit r = Some ''lb'' \<longrightarrow> (\<forall>s\<in>set ss. weight s \<noteq> None))
           \<and> (ss \<noteq> [] \<longrightarrow> (unit r = Some ''lb'') = (\<exists>s\<in>set ss. weight s \<noteq> None))"
proof -
  from parseStrengthWorkout_Inr [OF assms] obtain ss w where
    s: "sets r = Some ss" and u: "unit r = (if w \<noteq> None then Some ''lb'' else None)"
    and a: "\<forall>s\<in>set ss. (failed s \<longrightarrow> reps s = 0) \<and> weight s = w"
    by blast
  show ?thesis
  proof (cases w)
    case None
    with s u a show ?thesis by auto
  next
    case (Some x)
    with s u a have "unit r = Some ''lb''" "\<forall>s\<in>set ss. weight s \<noteq> None" by auto
    with s show ?thesis by (cases ss) auto
  qed
qed

theorem strength_unit_weight_witness:
  "parseStrengthWorkout ''squat'' ''225x5'' ''t'' =
     Inr ((new_record ''t'' (Some ''strength''))
            \<lparr>exercise := Some ''squat'', unit := Some ''lb'',
             sets := Some [mk_set (Some 225) 5 False]\<rparr>)
   \<and> (\<exists>ss. sets ((new_record ''t'' (Some ''strength''))
                   \<lparr>exercise := Some ''squat'', unit := Some ''lb'',
                    sets := Some [mk_set (Some 225) 5 False]\<rparr>) = Some ss
          \<and> ss \<noteq> []
          \<and> unit ((new_record ''t'' (Some ''strength''))
                   \<lparr>exercise := Some ''squat'', unit := Some ''lb'',
                    sets := Some [mk_set (Some 225) 5 False]\<rparr>) = Some ''lb''
          \<and> list_ex (\<lambda>s. weight s \<noteq> None) ss)"
proof -
  have h: "parseStrengthWorkout ''squat'' ''225x5'' ''t'' =
     Inr ((new_record ''t'' (Some ''strength''))
            \<lparr>exercise := Some ''squat'', unit := Some ''lb'',
             sets := Some [mk_set (Some 225) 5 False]\<rparr>)"
    by code_simp
  from strength_unit_weight [OF h] h show ?thesis
    by (auto simp: new_record_def list_ex_iff)
qed

section \<open>Failed sets\<close>

text \<open>
  C5. In every set of every record that parsing returns, a set marked as failed has zero
  reps.
\<close>

theorem failed_set_has_zero_reps:
  assumes "parseWorkoutLog message now src = Inr (r, d)"
    and "sets r = Some ss" and "s \<in> set ss" and "failed s"
  shows "reps s = 0"
proof -
  from parseWorkoutLog_Inr [OF assms(1)] assms(2)
  obtain en rest r0 its where p: "parseStrengthWorkout en rest its = Inr r0" and e: "sets r = sets r0"
    by auto
  from parseStrengthWorkout_Inr [OF p] e assms(2,3,4) show ?thesis by auto
qed

theorem failed_set_has_zero_reps_witness:
  "parseWorkoutLog ''/log squat 405 2,1,x'' test_instant ''cli'' =
     Inr ((new_record ''2026-02-16T10:30:00-08:00'' (Some ''strength''))
            \<lparr>exercise := Some ''squat'', unit := Some ''lb'',
             sets := Some [mk_set (Some 405) 2 False, mk_set (Some 405) 1 False,
                           mk_set (Some 405) 0 True],
             source := Some ''cli'', raw := Some ''/log squat 405 2,1,x''\<rparr>, ''2026-02-16'')
   \<and> failed (mk_set (Some 405) 0 True) \<and> reps (mk_set (Some 405) 0 True) = 0"
proof -
  let ?r = "(new_record ''2026-02-16T10:30:00-08:00'' (Some ''strength''))
            \<lparr>exercise := Some ''squat'', unit := Some ''lb'',
             sets := Some [mk_set (Some 405) 2 False, mk_set (Some 405) 1 False,
                           mk_set (Some 405) 0 True],
             source := Some ''cli'', raw := Some ''/log squat 405 2,1,x''\<rparr>"
  have h: "parseWorkoutLog ''/log squat 405 2,1,x'' test_instant ''cli'' = Inr (?r, ''2026-02-16'')"
    by code_simp
  have s: "sets ?r = Some [mk_set (Some 405) 2 False, mk_set (Some 405) 1 False,
                           mk_set (Some 405) 0 True]"
    by (simp add: new_record_def)
  have m: "mk_set (Some 405) 0 True \<in> set [mk_set (Some 405) 2 False, mk_set (Some 405) 1 False,
                           mk_set (Some 405) 0 True]" by simp
  have f: "failed (mk_set (Some 405) 0 True)" by (simp add: mk_set_def)
  from failed_set_has_zero_reps [OF h s m f] h f show ?thesis by simp
qed

section \<open>Literal dates\<close>

text \<open>
  C3. For a token of the form \<open>YYYY-MM-DD\<close> the year, month and day strings are the
  token's digit groups, but the calendar date that \<open>parseDate\<close> returns with them is
  the date of the reference instant, not the date the token denotes: for the token
  \<open>2026-01-30\<close> and the reference 2026-02-16 the date returned is 2026-02-16.
\<close>

theorem parseDate_iso_returns_reference_date:
  "parseDate (Some ''2026-01-30'') test_instant = Inr ((2026, 2, 16), ''2026'', ''01'', ''30'')"
  by code_simp

section \<open>The range of the rpe field\<close>

text \<open>
  C6. The digits after \<open>rpe\<close> are stored as they are read: the message
  \<open>/log squat 315x5x3 rpe15\<close> parses to a record whose rpe is 15, outside 1 to 10.
\<close>

theorem rpe_out_of_range:
  "field_of rpe (parseWorkoutLog ''/log squat 315x5x3 rpe15'' test_instant ''cli'') = Some (Some 15)"
  by code_simp

end
